theory Spec2Isabelle
  imports Complex_Main "HOL-Library.AList"
begin

section \<open>The session and playback engine of the prompt-driven music player\<close>

text \<open>
  This theory embeds the class \<open>PromptDj\<close> of \<open>src/index.tsx\<close> together with the
  helper \<open>throttle\<close> it uses for its two control channels.

  Conventions of the embedding.
  \<^item> The fields of the class are the first fields of the record \<open>engine\<close>. Every effect
    on the outside world is appended to a log kept in the same record: \<open>toasts\<close>
    (\<open>toastMessage.show\<close>), \<open>console\<close> (\<open>console.warn\<close> and \<open>console.error\<close>),
    \<open>calls\<close> (every call attempted on the remote service), \<open>started\<close>
    (\<open>source.start(t)\<close> with the buffer's duration), \<open>timeouts\<close> (\<open>setTimeout\<close>),
    \<open>unhandled\<close> (exceptions that leave a handler) and \<open>storedPrompts\<close> (local storage).
  \<^item> Everything the environment decides is read from a record \<open>env\<close>: the two clocks
    (\<open>Date.now()\<close> in milliseconds and \<open>audioContext.currentTime\<close> in seconds), whether
    each remote call succeeds, the message of a caught exception and \<open>Math.random()\<close>.
  \<^item> Numbers of the program (weights, device times, durations) are modelled as reals;
    rounding of floating-point arithmetic is not modelled.
  \<^item> A handler runs from its first to its last statement without another handler
    running in between, with two exceptions. The message handler is split at its
    \<open>await decodeAudioData\<close> into \<open>onmessage_begin\<close> and \<open>onmessage_resume\<close>. The two
    throttled functions are never awaited by their callers (the closure \<open>throttle\<close>
    returns has no result), so what they do when their \<open>await\<close> of the send throws is a
    handler of its own: \<open>setSessionPrompts_catch\<close> and \<open>updateSettings_catch\<close>.
  \<^item> The gain ramps on the output node, the DOM focus handling of \<open>handleAddPrompt\<close> and
    the hide timer of the toast component are presentation and are left out.
\<close>

subsection \<open>Data\<close>

record Prompt =
  promptId :: string
  color :: string
  "text" :: string
  weight :: real

datatype PlaybackState = stopped | playing | loading | paused

datatype AudioContextState = suspended | running | closed

text \<open>A \<open>LiveMusicGenerationConfig\<close> object: its own keys in order, a key may hold \<open>undefined\<close>.\<close>

datatype cfg_value = Undefined | Num real | Bool bool | Str string

type_synonym LiveMusicGenerationConfig = "(string \<times> cfg_value) list"

text \<open>Calls on the remote service: \<open>ai.live.music.connect\<close> and the methods of the session.\<close>

datatype api_call =
    Connect
  | SetWeightedPrompts "Prompt list"
  | SetMusicGenerationConfig LiveMusicGenerationConfig
  | Play
  | Pause
  | Stop
  | ResetContext
  | Close

text \<open>The two callbacks the class hands to \<open>setTimeout\<close>.\<close>

datatype timer = PromoteToPlaying | FreshToast

datatype error = TypeError | DecodeError | ResumeError | SendError | PlayError

text \<open>A message of the server: \<open>filteredPrompt\<close> is \<open>(text, filteredReason)\<close>, \<open>audioChunks\<close>
  is \<open>serverContent?.audioChunks\<close> with the \<open>data\<close> of every chunk.\<close>

record LiveMusicServerMessage =
  setupComplete :: bool
  filteredPrompt :: "(string \<times> string option) option"
  audioChunks :: "string list option"

record engine =
  prompts :: "(string \<times> Prompt) list"
  nextPromptId :: nat
  session :: bool
  audioContext :: "AudioContextState option"
  nextStartTime :: real
  playbackState :: PlaybackState
  filteredPrompts :: "string set"
  connectionError :: bool
  settingsController :: "LiveMusicGenerationConfig option"
  setSessionPrompts_lastCall :: int
  updateSettings_lastCall :: int
  toasts :: "string list"
  console :: "string list"
  calls :: "api_call list"
  started :: "(real \<times> real) list"
  timeouts :: "(real \<times> timer) list"
  unhandled :: "error list"
  storedPrompts :: "(string \<times> Prompt) list"

record env =
  nowMs :: int
  currentTime :: real
  newAudioContext :: "AudioContextState option"
  resumeOk :: bool
  probeOk :: bool
  closeOk :: bool
  connectOk :: bool
  configOk :: bool
  playOk :: bool
  pauseOk :: bool
  stopOk :: bool
  resetContextOk :: bool
  errMessage :: string
  random :: real

definition bufferTime :: real where
  "bufferTime = 2"

definition COLORS :: "string list" where
  "COLORS = [''#FF6384'', ''#FFCD56'', ''#4BC0C0'', ''#36A2EB'',
             ''#9966FF'', ''#FF9F40'', ''#83F28F'', ''#F06292'']"

subsection \<open>The throttle\<close>

text \<open>
  \<open>throttle(func, delay)\<close> closes over \<open>lastCall\<close>. The closure's state is the pair of
  \<open>lastCall\<close> and the state \<open>func\<close> works on; \<open>now\<close> is what \<open>Date.now()\<close> returns.
  The closure keeps nothing else: no pending arguments and no timer.
\<close>

definition throttle ::
  "('x \<Rightarrow> 's \<Rightarrow> 's) \<Rightarrow> int \<Rightarrow> int \<Rightarrow> 'x \<Rightarrow> int \<times> 's \<Rightarrow> int \<times> 's" where
  "throttle func delay now args =
     (\<lambda>(lastCall, s).
        let timeSinceLastCall = now - lastCall in
        if timeSinceLastCall \<ge> delay then (now, func args s) else (lastCall, s))"

subsection \<open>Small helpers\<close>

definition toastShow :: "string \<Rightarrow> engine \<Rightarrow> engine" where
  "toastShow m st = st\<lparr>toasts := toasts st @ [m]\<rparr>"

definition consoleLog :: "string \<Rightarrow> engine \<Rightarrow> engine" where
  "consoleLog m st = st\<lparr>console := console st @ [m]\<rparr>"

definition call :: "api_call \<Rightarrow> engine \<Rightarrow> engine" where
  "call c st = st\<lparr>calls := calls st @ [c]\<rparr>"

definition throw :: "error \<Rightarrow> engine \<Rightarrow> engine" where
  "throw e st = st\<lparr>unhandled := unhandled st @ [e]\<rparr>"

definition setTimeout :: "timer \<Rightarrow> real \<Rightarrow> engine \<Rightarrow> engine" where
  "setTimeout cb ms st = st\<lparr>timeouts := timeouts st @ [(ms, cb)]\<rparr>"

text \<open>The decimal digits of a number, as a template literal prints it.\<close>

definition digit :: "nat \<Rightarrow> char" where
  "digit n = ''0123456789'' ! n"

function string_of_nat :: "nat \<Rightarrow> string" where
  "string_of_nat n =
     (if n < 10 then [digit n] else string_of_nat (n div 10) @ [digit (n mod 10)])"
  by pat_completeness auto
termination
  by (relation "measure id") auto

text \<open>\<open>Math.floor(Math.random() * n)\<close>, with \<open>Math.random()\<close> in \<open>[0, 1)\<close>.\<close>

definition randomIndex :: "real \<Rightarrow> nat \<Rightarrow> nat" where
  "randomIndex r n = nat \<lfloor>r * real n\<rfloor>"

definition getUnusedRandomColor :: "real \<Rightarrow> string list \<Rightarrow> string" where
  "getUnusedRandomColor r usedColors =
     (let availableColors = filter (\<lambda>c. c \<notin> set usedColors) COLORS in
      if length availableColors = 0 then COLORS ! randomIndex r (length COLORS)
      else availableColors ! randomIndex r (length availableColors))"

subsection \<open>Audio context and pausing\<close>

definition initializeAudioContext :: "env \<Rightarrow> engine \<Rightarrow> engine" where
  "initializeAudioContext ev st =
     (if audioContext st = None \<or> audioContext st = Some closed then
        (case newAudioContext ev of
           Some c \<Rightarrow> st\<lparr>audioContext := Some c\<rparr>
         | None \<Rightarrow>
             toastShow ''Oops! Your browser doesn't support the magic sound maker (AudioContext).''
               (consoleLog ''AudioContext is not supported in this browser.'' st))
      else st)"

definition pauseAudio :: "env \<Rightarrow> engine \<Rightarrow> engine" where
  "pauseAudio ev st =
     (let s1 = (if session st \<and> \<not> connectionError st then
                  (if pauseOk ev then call Pause st
                   else consoleLog ''Error pausing session:'' (call Pause st))
                else st)
      in s1\<lparr>playbackState := paused, nextStartTime := 0\<rparr>)"

definition stopAudio :: "env \<Rightarrow> engine \<Rightarrow> engine" where
  "stopAudio ev st =
     (let s1 = (if session st \<and> \<not> connectionError st then
                  (if stopOk ev then call Stop st
                   else consoleLog ''Error stopping session:'' (call Stop st))
                else st)
      in s1\<lparr>playbackState := stopped, nextStartTime := 0\<rparr>)"

subsection \<open>The prompts channel\<close>

definition childFriendlyInstruction :: string where
  "childFriendlyInstruction = ''Music for a 5-year-old: ''"

definition wrapText :: "string \<Rightarrow> string" where
  "wrapText t = childFriendlyInstruction @ t @ ''. Make it simple, happy, and playful.''"

definition promptsToSend :: "engine \<Rightarrow> Prompt list" where
  "promptsToSend st =
     map (\<lambda>p. p\<lparr>text := wrapText (text p)\<rparr>)
       (filter (\<lambda>p. text p \<notin> filteredPrompts st \<and> weight p > 0.01)
          (map snd (prompts st)))"

text \<open>The function passed to \<open>throttle\<close> for \<open>setSessionPrompts\<close>, up to its \<open>await\<close>.\<close>

definition setSessionPrompts_func :: "unit \<Rightarrow> engine \<Rightarrow> engine" where
  "setSessionPrompts_func args st =
     (if \<not> session st \<or> connectionError st then
        consoleLog ''Session not ready for setSessionPrompts'' st
      else call (SetWeightedPrompts (promptsToSend st)) st)"

text \<open>Its \<open>catch\<close> block, run when \<open>session.setWeightedPrompts\<close> throws.\<close>

definition setSessionPrompts_catch :: "env \<Rightarrow> engine \<Rightarrow> engine" where
  "setSessionPrompts_catch ev st =
     pauseAudio ev (toastShow (''Oops! Had trouble with song ideas: '' @ errMessage ev) st)"

definition setSessionPrompts :: "env \<Rightarrow> engine \<Rightarrow> engine" where
  "setSessionPrompts ev st =
     (let (lc, s) = throttle setSessionPrompts_func 250 (nowMs ev) ()
                      (setSessionPrompts_lastCall st, st)
      in s\<lparr>setSessionPrompts_lastCall := lc\<rparr>)"

subsection \<open>The settings channel\<close>

text \<open>The function passed to \<open>throttle\<close> for \<open>updateSettings\<close>, up to its \<open>await\<close>;
  \<open>detail\<close> is \<open>e.detail\<close>.\<close>

definition updateSettings_func :: "LiveMusicGenerationConfig \<Rightarrow> engine \<Rightarrow> engine" where
  "updateSettings_func detail st =
     (if \<not> session st \<or> connectionError st then
        consoleLog ''Session not ready for updateSettings'' st
      else call (SetMusicGenerationConfig detail) st)"

text \<open>Its \<open>catch\<close> block, run when \<open>session.setMusicGenerationConfig\<close> throws.\<close>

definition updateSettings_catch :: "env \<Rightarrow> engine \<Rightarrow> engine" where
  "updateSettings_catch ev st = toastShow (''Setting change failed: '' @ errMessage ev) st"

definition updateSettings :: "env \<Rightarrow> LiveMusicGenerationConfig \<Rightarrow> engine \<Rightarrow> engine" where
  "updateSettings ev detail st =
     (let (lc, s) = throttle updateSettings_func 250 (nowMs ev) detail
                      (updateSettings_lastCall st, st)
      in s\<lparr>updateSettings_lastCall := lc\<rparr>)"

subsection \<open>The session: connecting and inbound messages\<close>

text \<open>The \<open>catch\<close> block of \<open>connectToSession\<close>.\<close>

definition connectToSession_catch :: "engine \<Rightarrow> engine" where
  "connectToSession_catch st =
     toastShow ''Couldn't start the music magic. Is your internet okay?''
       ((consoleLog ''Failed to connect to session:'' st)
          \<lparr>connectionError := True, playbackState := stopped\<rparr>)"

definition connectToSession :: "env \<Rightarrow> engine \<Rightarrow> engine" where
  "connectToSession ev st =
     (if audioContext st = None then
        (toastShow ''Cannot connect: Audio system not ready.'' st)\<lparr>playbackState := stopped\<rparr>
      else
        let check = session st \<and> \<not> connectionError st;
            s1 = (if check then call (SetMusicGenerationConfig []) st else st)
        in
        if check \<and> probeOk ev then s1
        else
          let s2 = (if check then consoleLog ''Session check failed, reconnecting.'' s1 else s1);
              s3 = (if session s2 then
                      (if closeOk ev then call Close s2
                       else consoleLog ''Error closing existing session:'' (call Close s2))
                    else s2);
              s4 = call Connect (s3\<lparr>playbackState := loading\<rparr>)
          in
          if \<not> connectOk ev then connectToSession_catch s4
          else
            let s5 = s4\<lparr>session := True, connectionError := False\<rparr>;
                s6 = setSessionPrompts ev s5
            in
            (case settingsController s6 of
               None \<Rightarrow> s6
             | Some currentSettings \<Rightarrow>
                 let s7 = call (SetMusicGenerationConfig currentSettings) s6 in
                 if configOk ev then s7 else connectToSession_catch s7))"

text \<open>The message handler stops at \<open>await decodeAudioData(decode(data), ...)\<close>.\<close>

datatype onmessage_state = Finished engine | AwaitDecode engine string

text \<open>The first two blocks of the handler: \<open>setupComplete\<close> and \<open>filteredPrompt\<close>.\<close>

definition onmessage_signals :: "LiveMusicServerMessage \<Rightarrow> engine \<Rightarrow> engine" where
  "onmessage_signals e st =
     (let s1 = (if setupComplete e then st\<lparr>connectionError := False\<rparr> else st) in
      case filteredPrompt e of
        None \<Rightarrow> s1
      | Some (t, filteredReason) \<Rightarrow>
          toastShow
            (CHR 0x22 # take 30 t @ [CHR ''.'', CHR ''.'', CHR ''.'', CHR 0x22]
               @ '' idea is a bit tricky! ''
               @ (case filteredReason of None \<Rightarrow> [] | Some r \<Rightarrow> r))
            (s1\<lparr>filteredPrompts := insert t (filteredPrompts s1)\<rparr>))"

definition onmessage_begin :: "env \<Rightarrow> LiveMusicServerMessage \<Rightarrow> engine \<Rightarrow> onmessage_state" where
  "onmessage_begin ev e st =
     (let s2 = onmessage_signals e st in
      case audioChunks e of
        None \<Rightarrow> Finished s2
      | Some chunks \<Rightarrow>
          if playbackState s2 = paused \<or> playbackState s2 = stopped then Finished s2
          else if audioContext s2 = None \<or> audioContext s2 = Some closed then
            Finished (pauseAudio ev
              (consoleLog ''AudioContext closed or not available, cannot play audio.'' s2))
          else
            (case chunks of
               [] \<Rightarrow> Finished (throw TypeError s2)
             | c # cs \<Rightarrow> AwaitDecode s2 c))"

text \<open>The first buffer after play or resume: \<open>if (this.nextStartTime === 0) ...\<close>.\<close>

definition firstBuffer :: "env \<Rightarrow> engine \<Rightarrow> engine" where
  "firstBuffer ev st =
     (if nextStartTime st = 0 then
        setTimeout PromoteToPlaying (bufferTime * 1000)
          (st\<lparr>nextStartTime := currentTime ev + bufferTime\<rparr>)
      else st)"

text \<open>The test \<open>this.nextStartTime < this.audioContext.currentTime\<close> and what follows it.\<close>

definition underRun :: "env \<Rightarrow> engine \<Rightarrow> bool" where
  "underRun ev st = (nextStartTime st < currentTime ev)"

definition rebuffer :: "env \<Rightarrow> engine \<Rightarrow> engine" where
  "rebuffer ev st =
     (if underRun ev st then
        (consoleLog ''Audio under-run detected! Resetting playback.'' st)
          \<lparr>playbackState := loading, nextStartTime := currentTime ev + bufferTime\<rparr>
      else st)"

text \<open>\<open>source.start(this.nextStartTime); this.nextStartTime += audioBuffer.duration\<close>.\<close>

definition startSource :: "real \<Rightarrow> engine \<Rightarrow> engine" where
  "startSource duration st =
     (let s = st\<lparr>started := started st @ [(nextStartTime st, duration)]\<rparr>
      in s\<lparr>nextStartTime := nextStartTime s + duration\<rparr>)"

text \<open>The handler after the decoded buffer (of the given duration) has arrived.\<close>

definition onmessage_resume :: "env \<Rightarrow> real \<Rightarrow> engine \<Rightarrow> engine" where
  "onmessage_resume ev duration st = startSource duration (rebuffer ev (firstBuffer ev st))"

text \<open>The whole handler, when nothing runs during the decoding; \<open>decodeAudioData\<close> gives the
  duration of the buffer decoded from a chunk's data, or throws (\<open>None\<close>).\<close>

definition onmessage ::
  "(string \<Rightarrow> real option) \<Rightarrow> env \<Rightarrow> LiveMusicServerMessage \<Rightarrow> engine \<Rightarrow> engine" where
  "onmessage decodeAudioData ev e st =
     (case onmessage_begin ev e st of
        Finished s \<Rightarrow> s
      | AwaitDecode s d \<Rightarrow>
          (case decodeAudioData d of
             None \<Rightarrow> throw DecodeError s
           | Some duration \<Rightarrow> onmessage_resume ev duration s))"

definition onerror :: "env \<Rightarrow> engine \<Rightarrow> engine" where
  "onerror ev st =
     toastShow ''Oh no! Lost connection to the music magic. Try playing again.''
       ((pauseAudio ev ((consoleLog ''Connection error:'' st)\<lparr>connectionError := True\<rparr>))
          \<lparr>playbackState := paused\<rparr>)"

definition onclose :: "env \<Rightarrow> bool \<Rightarrow> engine \<Rightarrow> engine" where
  "onclose ev wasClean st =
     (if \<not> wasClean then
        toastShow ''Music magic connection closed. Please try playing again.''
          ((pauseAudio ev (st\<lparr>connectionError := True\<rparr>))\<lparr>playbackState := paused\<rparr>)
      else st)"

text \<open>The callbacks given to \<open>setTimeout\<close>.\<close>

definition runTimer :: "timer \<Rightarrow> engine \<Rightarrow> engine" where
  "runTimer cb st =
     (case cb of
        PromoteToPlaying \<Rightarrow>
          (if playbackState st = loading then st\<lparr>playbackState := playing\<rparr> else st)
      | FreshToast \<Rightarrow> toastShow ''Music all fresh and new!'' st)"

subsection \<open>The user's intents\<close>

text \<open>\<open>dispatchPromptsChange\<close> saves the prompts with \<open>setStoredPrompts\<close>.\<close>

definition dispatchPromptsChange :: "engine \<Rightarrow> engine" where
  "dispatchPromptsChange st = st\<lparr>storedPrompts := prompts st\<rparr>"

text \<open>\<open>detail\<close> is \<open>e.detail\<close>; \<open>Map.set\<close> keeps the place of a key the map has already.\<close>

definition handlePromptChanged :: "env \<Rightarrow> Prompt \<Rightarrow> engine \<Rightarrow> engine" where
  "handlePromptChanged ev detail st =
     (case map_of (prompts st) (promptId detail) of
        None \<Rightarrow> consoleLog ''Prompt not found:'' st
      | Some prompt \<Rightarrow>
          let prompt' = prompt\<lparr>text := text detail, weight := weight detail\<rparr>;
              newPrompts = AList.update (promptId detail) prompt' (prompts st)
          in dispatchPromptsChange (setSessionPrompts ev (st\<lparr>prompts := newPrompts\<rparr>)))"

definition handlePromptRemoved :: "env \<Rightarrow> string \<Rightarrow> engine \<Rightarrow> engine" where
  "handlePromptRemoved ev promptIdToRemove st =
     (if promptIdToRemove \<in> fst ` set (prompts st) then
        dispatchPromptsChange
          (setSessionPrompts ev (st\<lparr>prompts := AList.delete promptIdToRemove (prompts st)\<rparr>))
      else consoleLog (''Attempted to remove non-existent prompt ID: '' @ promptIdToRemove) st)"

definition handleAddPrompt :: "env \<Rightarrow> engine \<Rightarrow> engine" where
  "handleAddPrompt ev st =
     (if length (prompts st) \<ge> 8 then
        toastShow ''That's a lot of song ideas! Maybe remove one first?'' st
      else
        let newPromptId = ''prompt-'' @ string_of_nat (nextPromptId st);
            s1 = st\<lparr>nextPromptId := nextPromptId st + 1\<rparr>;
            usedColors = map (\<lambda>p. color (snd p)) (prompts s1);
            newPrompt = \<lparr>promptId = newPromptId,
                         color = getUnusedRandomColor (random ev) usedColors,
                         text = ''New Song Idea!'',
                         weight = 0\<rparr>;
            newPrompts = AList.update newPromptId newPrompt (prompts s1)
        in dispatchPromptsChange (s1\<lparr>prompts := newPrompts\<rparr>))"

definition loadAudio :: "env \<Rightarrow> engine \<Rightarrow> engine" where
  "loadAudio ev st =
     (if audioContext st \<noteq> Some running then
        (toastShow ''Audio system not ready to play.'' st)\<lparr>playbackState := paused\<rparr>
      else if \<not> session st \<or> connectionError st then
        let s1 = connectToSession ev (toastShow ''Trying to reconnect the music magic...'' st)
        in
        if \<not> connectionError s1 \<and> session s1 then
          (if playOk ev then (call Play s1)\<lparr>playbackState := loading\<rparr>
           else throw PlayError (call Play s1))
        else s1
      else if playOk ev then (call Play st)\<lparr>playbackState := loading\<rparr>
      else (toastShow (''Couldn't play: '' @ errMessage ev) (call Play st))
             \<lparr>playbackState := paused\<rparr>)"

definition handlePlayPause :: "env \<Rightarrow> engine \<Rightarrow> engine" where
  "handlePlayPause ev st =
     (let s1 = initializeAudioContext ev st in
      case audioContext s1 of
        None \<Rightarrow> toastShow ''Cannot play: Audio system not ready.'' s1
      | Some c \<Rightarrow>
          if c = suspended \<and> \<not> resumeOk ev then throw ResumeError s1
          else
            let s2 = (if c = suspended then s1\<lparr>audioContext := Some running\<rparr> else s1) in
            if playbackState s2 = playing then pauseAudio ev s2
            else if playbackState s2 = paused \<or> playbackState s2 = stopped then
              (if connectionError s2 \<or> \<not> session s2 then
                 let s3 = connectToSession ev s2 in
                 if connectionError s3 then s3 else loadAudio ev s3
               else loadAudio ev s2)
            else pauseAudio ev s2)"

definition defaultConfig :: LiveMusicGenerationConfig where
  "defaultConfig = [(''temperature'', Num 1.2), (''topK'', Num 50), (''guidance'', Num 3.5)]"

text \<open>The configuration \<open>resetToDefaults\<close> of the settings controller leaves and dispatches.\<close>

definition resetToDefaults_config :: LiveMusicGenerationConfig where
  "resetToDefaults_config =
     defaultConfig @ [(''density'', Undefined), (''brightness'', Undefined)]"

definition handleReset :: "env \<Rightarrow> engine \<Rightarrow> engine" where
  "handleReset ev st =
     (let s1 = initializeAudioContext ev st in
      case audioContext s1 of
        None \<Rightarrow> toastShow ''Cannot reset: Audio system not ready.'' s1
      | Some c \<Rightarrow>
          if c = suspended \<and> \<not> resumeOk ev then throw ResumeError s1
          else
            let s2 = (if c = suspended then s1\<lparr>audioContext := Some running\<rparr> else s1);
                reconnect = (connectionError s2 \<or> \<not> session s2);
                s3 = (if reconnect then connectToSession ev s2 else s2)
            in
            if reconnect \<and> connectionError s3 then s3
            else
              let s4 = pauseAudio ev s3;
                  s5 = (if session s4 then
                          (if resetContextOk ev then call ResetContext s4
                           else toastShow (''Could not reset music context: '' @ errMessage ev)
                                  (call ResetContext s4))
                        else s4)
              in
              (case settingsController s5 of
                 None \<Rightarrow> throw TypeError s5
               | Some cfg \<Rightarrow>
                   let s6 = updateSettings ev resetToDefaults_config
                              (s5\<lparr>settingsController := Some resetToDefaults_config\<rparr>);
                       s7 = s6\<lparr>filteredPrompts := {}\<rparr>
                   in setTimeout FreshToast 500 s7))"

text \<open>\<open>ev\<close> is read up to the end of \<open>await this.connectToSession()\<close>, \<open>ev'\<close> after it.\<close>

definition firstUpdated :: "env \<Rightarrow> env \<Rightarrow> engine \<Rightarrow> engine" where
  "firstUpdated ev ev' st =
     (let s1 = initializeAudioContext ev st in
      if audioContext s1 = None then s1
      else
        let s2 = connectToSession ev s1;
            s3 = setSessionPrompts ev' s2
        in
        (case settingsController s3 of
           None \<Rightarrow> s3
         | Some initialSettings \<Rightarrow>
             if \<not> session s3 then s3
             else
               let cfg = (if length initialSettings > 0 then initialSettings else defaultConfig);
                   s4 = call (SetMusicGenerationConfig cfg) s3
               in if configOk ev' then s4 else throw SendError s4))"

subsection \<open>Runs of the engine\<close>

text \<open>
  Everything that can happen to the engine, one handler at a time. \<open>Decoded d\<close> is the
  arrival of a decoded buffer of duration \<open>d\<close>, \<open>TimerFired i\<close> the firing of the
  \<open>i\<close>-th pending timeout, \<open>SettingsChanged cfg\<close> the event the settings controller
  dispatches after it has set its configuration to \<open>cfg\<close>, and \<open>AudioContextChanged\<close>
  a change of state the browser makes to the audio context.
\<close>

datatype event =
    FirstUpdated env
  | OnMessage LiveMusicServerMessage
  | Decoded real
  | DecodeFailed
  | OnError
  | OnClose bool
  | SetWeightedPromptsFailed
  | SetMusicGenerationConfigFailed
  | PromptChanged Prompt
  | PromptRemoved string
  | AddPrompt
  | SettingsChanged LiveMusicGenerationConfig
  | PlayPause
  | Reset
  | TimerFired nat
  | AudioContextChanged AudioContextState

definition step :: "env \<Rightarrow> event \<Rightarrow> engine \<Rightarrow> engine" where
  "step ev e st =
     (case e of
        FirstUpdated ev' \<Rightarrow> firstUpdated ev ev' st
      | OnMessage m \<Rightarrow>
          (case onmessage_begin ev m st of Finished s \<Rightarrow> s | AwaitDecode s d \<Rightarrow> s)
      | Decoded d \<Rightarrow> onmessage_resume ev d st
      | DecodeFailed \<Rightarrow> throw DecodeError st
      | OnError \<Rightarrow> onerror ev st
      | OnClose wasClean \<Rightarrow> onclose ev wasClean st
      | SetWeightedPromptsFailed \<Rightarrow> setSessionPrompts_catch ev st
      | SetMusicGenerationConfigFailed \<Rightarrow> updateSettings_catch ev st
      | PromptChanged detail \<Rightarrow> handlePromptChanged ev detail st
      | PromptRemoved i \<Rightarrow> handlePromptRemoved ev i st
      | AddPrompt \<Rightarrow> handleAddPrompt ev st
      | SettingsChanged cfg \<Rightarrow> updateSettings ev cfg (st\<lparr>settingsController := Some cfg\<rparr>)
      | PlayPause \<Rightarrow> handlePlayPause ev st
      | Reset \<Rightarrow> handleReset ev st
      | TimerFired i \<Rightarrow>
          (if i < length (timeouts st) then
             runTimer (snd (timeouts st ! i))
               (st\<lparr>timeouts := take i (timeouts st) @ drop (Suc i) (timeouts st)\<rparr>)
           else st)
      | AudioContextChanged c \<Rightarrow>
          (if audioContext st = None then st else st\<lparr>audioContext := Some c\<rparr>))"

fun run :: "engine \<Rightarrow> (env \<times> event) list \<Rightarrow> engine" where
  "run st [] = st"
| "run st ((ev, e) # es) = run (step ev e st) es"

subsection \<open>A stream of audio chunks\<close>

text \<open>The messages of a list handled one after the other, nothing else in between.\<close>

fun onmessages ::
  "(string \<Rightarrow> real option) \<Rightarrow> engine \<Rightarrow> (env \<times> LiveMusicServerMessage) list \<Rightarrow> engine" where
  "onmessages decodeAudioData st [] = st"
| "onmessages decodeAudioData st ((ev, e) # es) =
     onmessages decodeAudioData (onmessage decodeAudioData ev e st) es"

text \<open>The duration of the buffer a message's first chunk decodes to, if there is one.\<close>

definition chunkDuration ::
  "(string \<Rightarrow> real option) \<Rightarrow> LiveMusicServerMessage \<Rightarrow> real option" where
  "chunkDuration decodeAudioData e =
     (case audioChunks e of
        Some (c # cs) \<Rightarrow> decodeAudioData c
      | _ \<Rightarrow> None)"

text \<open>
  Every message of the list carries an audio chunk that decodes to a buffer of positive
  duration, is handled while the state is \<open>playing\<close> with a usable audio context and
  at a device time that is not negative, and no under-run is detected for it.
\<close>

fun steady ::
  "(string \<Rightarrow> real option) \<Rightarrow> engine \<Rightarrow> (env \<times> LiveMusicServerMessage) list \<Rightarrow> bool" where
  "steady decodeAudioData st [] = True"
| "steady decodeAudioData st ((ev, e) # es) =
     (playbackState st = playing
      \<and> audioContext st \<noteq> None \<and> audioContext st \<noteq> Some closed
      \<and> (case chunkDuration decodeAudioData e of None \<Rightarrow> False | Some d \<Rightarrow> 0 < d)
      \<and> 0 \<le> currentTime ev
      \<and> \<not> underRun ev (firstBuffer ev (onmessage_signals e st))
      \<and> steady decodeAudioData (onmessage decodeAudioData ev e st) es)"

text \<open>Scheduled buffers \<open>(start, duration)\<close>: each starts where the one before it ends,
  and later than it.\<close>

fun contiguous :: "(real \<times> real) list \<Rightarrow> bool" where
  "contiguous (a # b # xs) = (fst b = fst a + snd a \<and> fst a < fst b \<and> contiguous (b # xs))"
| "contiguous xs = True"

subsection \<open>Pushes that leave a text out\<close>

text \<open>A call that is not a push of weighted prompts, or a push none of whose prompts
  carries the text \<open>t\<close> (in its wrapping).\<close>

definition excludes :: "string \<Rightarrow> api_call \<Rightarrow> bool" where
  "excludes t c = (case c of SetWeightedPrompts ps \<Rightarrow> wrapText t \<notin> text ` set ps | _ \<Rightarrow> True)"

text \<open>The text \<open>t\<close> is in the set of filtered prompts, and every call made since the
  log of calls had \<open>n\<close> entries leaves \<open>t\<close> out.\<close>

definition filtered_inv :: "string \<Rightarrow> nat \<Rightarrow> engine \<Rightarrow> bool" where
  "filtered_inv t n st =
     (t \<in> filteredPrompts st \<and> n \<le> length (calls st)
      \<and> (\<forall>c \<in> set (drop n (calls st)). excludes t c))"

subsection \<open>Example states\<close>

text \<open>The element as its constructor leaves it, before anything is rendered.\<close>

definition PromptDj :: "env \<Rightarrow> (string \<times> Prompt) list \<Rightarrow> engine" where
  "PromptDj ev initialPrompts =
     initializeAudioContext ev
       \<lparr>prompts = initialPrompts,
        nextPromptId = length initialPrompts,
        session = False,
        audioContext = None,
        nextStartTime = 0,
        playbackState = stopped,
        filteredPrompts = {},
        connectionError = True,
        settingsController = None,
        setSessionPrompts_lastCall = 0,
        updateSettings_lastCall = 0,
        toasts = [],
        console = [],
        calls = [],
        started = [],
        timeouts = [],
        unhandled = [],
        storedPrompts = initialPrompts\<rparr>"

text \<open>An environment in which every call succeeds.\<close>

definition env0 :: env where
  "env0 =
     \<lparr>nowMs = 1000, currentTime = 10, newAudioContext = Some running, resumeOk = True,
      probeOk = True, closeOk = True, connectOk = True, configOk = True, playOk = True,
      pauseOk = True, stopOk = True, resetContextOk = True, errMessage = ''closed'',
      random = 0\<rparr>"

definition prompt0 :: "nat \<Rightarrow> string \<times> Prompt" where
  "prompt0 i =
     (''prompt-'' @ [digit i],
      \<lparr>promptId = ''prompt-'' @ [digit i], color = ''#FF6384'',
       text = ''Sleepy Lullaby'', weight = 1\<rparr>)"

text \<open>A connected engine with one prompt of weight 1.\<close>

definition connected :: engine where
  "connected = (PromptDj env0 [prompt0 0])\<lparr>session := True, connectionError := False\<rparr>"

text \<open>The same engine while it plays, with audio scheduled up to the device time 12.\<close>

definition playing0 :: engine where
  "playing0 = connected\<lparr>playbackState := playing, nextStartTime := 12\<rparr>"

text \<open>A message with one audio chunk, and a decoder that knows two chunks.\<close>

definition audioMessage :: "string \<Rightarrow> LiveMusicServerMessage" where
  "audioMessage d = \<lparr>setupComplete = False, filteredPrompt = None, audioChunks = Some [d]\<rparr>"

definition decode0 :: "string \<Rightarrow> real option" where
  "decode0 d = (if d = ''a'' then Some 1 else if d = ''b'' then Some 2 else None)"

text \<open>A connected engine with two prompts, and the message that reports a text as filtered.\<close>

definition scary :: Prompt where
  "scary = \<lparr>promptId = ''prompt-1'', color = ''#FFCD56'', text = ''Scary Monsters'', weight = 1\<rparr>"

definition lullaby :: Prompt where
  "lullaby = \<lparr>promptId = ''prompt-0'', color = ''#FF6384'', text = ''Sleepy Lullaby'', weight = 1\<rparr>"

definition twoPrompts :: engine where
  "twoPrompts = connected\<lparr>prompts := [(''prompt-0'', lullaby), (''prompt-1'', scary)]\<rparr>"

definition filteredMessage :: "string \<Rightarrow> LiveMusicServerMessage" where
  "filteredMessage t = \<lparr>setupComplete = False, filteredPrompt = Some (t, None), audioChunks = None\<rparr>"

section \<open>Properties\<close>

subsection \<open>Helper facts\<close>

lemma throttle_accept:
  "delay \<le> now - lastCall \<Longrightarrow> throttle func delay now args (lastCall, s) = (now, func args s)"
  by (simp add: throttle_def)

lemma throttle_drop:
  "now - lastCall < delay \<Longrightarrow> throttle func delay now args (lastCall, s) = (lastCall, s)"
  by (simp add: throttle_def)

lemmas log_defs = toastShow_def consoleLog_def call_def throw_def setTimeout_def

lemma onmessage_signals_keeps:
  "playbackState (onmessage_signals e st) = playbackState st"
  "nextStartTime (onmessage_signals e st) = nextStartTime st"
  "audioContext (onmessage_signals e st) = audioContext st"
  "started (onmessage_signals e st) = started st"
  "timeouts (onmessage_signals e st) = timeouts st"
  "calls (onmessage_signals e st) = calls st"
  "console (onmessage_signals e st) = console st"
  "session (onmessage_signals e st) = session st"
  "prompts (onmessage_signals e st) = prompts st"
  by (simp_all add: onmessage_signals_def log_defs Let_def split: option.splits prod.splits)

lemma onmessage_accepted:
  assumes "playbackState st = loading \<or> playbackState st = playing"
    and "audioContext st \<noteq> None" and "audioContext st \<noteq> Some closed"
    and "chunkDuration dec e = Some d"
  shows "onmessage dec ev e st = onmessage_resume ev d (onmessage_signals e st)"
  using assms
  by (auto simp add: onmessage_def onmessage_begin_def chunkDuration_def onmessage_signals_keeps
      Let_def split: option.splits list.splits)

lemma resume_under_run:
  assumes "nextStartTime st \<noteq> 0" and "nextStartTime st < currentTime ev"
  shows "onmessage_resume ev d st =
          (consoleLog ''Audio under-run detected! Resetting playback.'' st)
            \<lparr>playbackState := loading,
             nextStartTime := currentTime ev + bufferTime + d,
             started := started st @ [(currentTime ev + bufferTime, d)]\<rparr>"
  using assms
  by (simp add: onmessage_resume_def firstBuffer_def rebuffer_def underRun_def startSource_def
      log_defs Let_def)

lemma resume_first:
  assumes "nextStartTime st = 0"
  shows "onmessage_resume ev d st =
          st\<lparr>nextStartTime := currentTime ev + bufferTime + d,
             started := started st @ [(currentTime ev + bufferTime, d)],
             timeouts := timeouts st @ [(bufferTime * 1000, PromoteToPlaying)]\<rparr>"
  using assms
  by (simp add: onmessage_resume_def firstBuffer_def rebuffer_def underRun_def startSource_def
      log_defs Let_def bufferTime_def)

lemma resume_normal:
  assumes "nextStartTime st \<noteq> 0" and "\<not> nextStartTime st < currentTime ev"
  shows "onmessage_resume ev d st =
          st\<lparr>nextStartTime := nextStartTime st + d,
             started := started st @ [(nextStartTime st, d)]\<rparr>"
  using assms
  by (simp add: onmessage_resume_def firstBuffer_def rebuffer_def underRun_def startSource_def
      log_defs Let_def)

lemma steady_step:
  assumes "steady dec st ((ev, e) # es)"
  obtains d where "chunkDuration dec e = Some d" "0 < d"
    "onmessage dec ev e st = onmessage_resume ev d (onmessage_signals e st)"
    "started (onmessage dec ev e st)
       = started st @ [(nextStartTime (firstBuffer ev (onmessage_signals e st)), d)]"
    "nextStartTime (onmessage dec ev e st)
       = nextStartTime (firstBuffer ev (onmessage_signals e st)) + d"
    "0 \<le> nextStartTime (firstBuffer ev (onmessage_signals e st))"
    "steady dec (onmessage dec ev e st) es"
proof -
  from assms obtain d where d: "chunkDuration dec e = Some d" "0 < d"
    by (auto split: option.splits)
  let ?s = "onmessage_signals e st"
  let ?f = "firstBuffer ev ?s"
  have m: "onmessage dec ev e st = onmessage_resume ev d ?s"
    using assms d by (simp add: onmessage_accepted)
  have nu: "\<not> underRun ev ?f" and t: "0 \<le> currentTime ev"
    using assms by simp_all
  have r: "rebuffer ev ?f = ?f"
    using nu by (simp add: rebuffer_def)
  have s: "started ?f = started st"
    by (simp add: firstBuffer_def setTimeout_def onmessage_signals_keeps)
  have "started (onmessage dec ev e st) = started st @ [(nextStartTime ?f, d)]"
    "nextStartTime (onmessage dec ev e st) = nextStartTime ?f + d"
    by (simp_all add: m onmessage_resume_def r startSource_def Let_def s)
  moreover have "0 \<le> nextStartTime ?f"
    using nu t by (simp add: underRun_def)
  moreover have "steady dec (onmessage dec ev e st) es"
    using assms by simp
  ultimately show ?thesis
    using d m that by blast
qed

lemma firstBuffer_nonzero:
  "nextStartTime st \<noteq> 0 \<Longrightarrow> firstBuffer ev st = st"
  by (simp add: firstBuffer_def)

lemma contiguous_Cons:
  "contiguous (a # xs) = (xs = [] \<or> (fst (hd xs) = fst a + snd a \<and> fst a < fst (hd xs) \<and> contiguous xs))"
  by (cases xs) auto

lemma steady_schedule:
  "steady dec st es \<Longrightarrow>
     \<exists>sched. started (onmessages dec st es) = started st @ sched
       \<and> map (\<lambda>x. Some (snd x)) sched = map (\<lambda>x. chunkDuration dec (snd x)) es
       \<and> contiguous sched
       \<and> (es \<noteq> [] \<longrightarrow>
            fst (hd sched) = nextStartTime (firstBuffer (fst (hd es)) (onmessage_signals (snd (hd es)) st))
            \<and> nextStartTime (onmessages dec st es) = fst (last sched) + snd (last sched))"
proof (induction es arbitrary: st)
  case Nil
  then show ?case by simp
next
  case (Cons x es)
  obtain ev e where x: "x = (ev, e)" by (cases x)
  let ?st' = "onmessage dec ev e st"
  let ?h = "nextStartTime (firstBuffer ev (onmessage_signals e st))"
  from Cons.prems x have st: "steady dec st ((ev, e) # es)" by simp
  from st obtain d where d: "chunkDuration dec e = Some d" "0 < d"
    "started ?st' = started st @ [(?h, d)]"
    "nextStartTime ?st' = ?h + d" "0 \<le> ?h" "steady dec ?st' es"
    by (rule steady_step) blast
  from Cons.IH [OF d(6)] obtain sched where
    s: "started (onmessages dec ?st' es) = started ?st' @ sched"
      "map (\<lambda>x. Some (snd x)) sched = map (\<lambda>x. chunkDuration dec (snd x)) es"
      "contiguous sched"
      "es \<noteq> [] \<longrightarrow>
         fst (hd sched) = nextStartTime (firstBuffer (fst (hd es)) (onmessage_signals (snd (hd es)) ?st'))
         \<and> nextStartTime (onmessages dec ?st' es) = fst (last sched) + snd (last sched)"
    by blast
  have nz: "nextStartTime ?st' \<noteq> 0"
    using d by simp
  have hd: "es \<noteq> [] \<longrightarrow> fst (hd sched) = ?h + d"
    using s(4) nz d(4) by (simp add: firstBuffer_nonzero onmessage_signals_keeps)
  have e: "sched = [] \<longleftrightarrow> es = []"
    using s(2) by (metis map_is_Nil_conv)
  have "started (onmessages dec st (x # es)) = started st @ ((?h, d) # sched)"
    using x s(1) d(3) by simp
  moreover have "map (\<lambda>x. Some (snd x)) ((?h, d) # sched)
                   = map (\<lambda>x. chunkDuration dec (snd x)) (x # es)"
    using x s(2) d(1) by simp
  moreover have "contiguous ((?h, d) # sched)"
    using s(3) hd e d(2) by (auto simp add: contiguous_Cons)
  moreover have "fst (hd ((?h, d) # sched)) = nextStartTime (firstBuffer (fst (hd (x # es))) (onmessage_signals (snd (hd (x # es))) st))"
    using x by simp
  moreover have "nextStartTime (onmessages dec st (x # es))
                   = fst (last ((?h, d) # sched)) + snd (last ((?h, d) # sched))"
    using x s(4) e d(4) by (cases "es = []") simp_all
  ultimately show ?case
    by blast
qed

lemma connectToSession_healthy:
  assumes "session st" and "\<not> connectionError st" and "audioContext st \<noteq> None" and "probeOk ev"
  shows "connectToSession ev st = st\<lparr>calls := calls st @ [SetMusicGenerationConfig []]\<rparr>"
  using assms by (cases "audioContext st") (simp_all add: connectToSession_def call_def Let_def)

lemma setSessionPrompts_keeps:
  "playbackState (setSessionPrompts ev st) = playbackState st"
  "nextStartTime (setSessionPrompts ev st) = nextStartTime st"
  "audioContext (setSessionPrompts ev st) = audioContext st"
  "session (setSessionPrompts ev st) = session st"
  "connectionError (setSessionPrompts ev st) = connectionError st"
  "settingsController (setSessionPrompts ev st) = settingsController st"
  "filteredPrompts (setSessionPrompts ev st) = filteredPrompts st"
  "toasts (setSessionPrompts ev st) = toasts st"
  by (simp_all add: setSessionPrompts_def throttle_def setSessionPrompts_func_def log_defs Let_def)

lemma setSessionPrompts_calls:
  "\<exists>xs. calls (setSessionPrompts ev st) = calls st @ xs \<and> Connect \<notin> set xs"
  by (simp add: setSessionPrompts_def throttle_def setSessionPrompts_func_def log_defs Let_def)

lemma connectToSession_unhealthy:
  assumes "connectionError st \<or> \<not> session st" and "audioContext st \<noteq> None"
  shows "connectionError (connectToSession ev st)
           = (\<not> connectOk ev \<or> (settingsController st \<noteq> None \<and> \<not> configOk ev))"
    and "connectionError (connectToSession ev st) \<longrightarrow>
           playbackState (connectToSession ev st) = stopped"
    and "\<not> connectionError (connectToSession ev st) \<longrightarrow>
           session (connectToSession ev st) \<and> playbackState (connectToSession ev st) = loading"
    and "audioContext (connectToSession ev st) = audioContext st"
  using assms
  by (auto simp add: connectToSession_def connectToSession_catch_def setSessionPrompts_keeps
      log_defs Let_def split: option.splits)

lemma connectToSession_unhealthy_calls:
  assumes "connectionError st \<or> \<not> session st" and "audioContext st \<noteq> None"
  shows "\<exists>xs ys. calls (connectToSession ev st) = calls st @ xs @ [Connect] @ ys
           \<and> Connect \<notin> set xs \<and> Connect \<notin> set ys"
proof -
  let ?s3 = "(if session st then
                (if closeOk ev then call Close st
                 else consoleLog ''Error closing existing session:'' (call Close st))
              else st)"
  let ?s4 = "call Connect (?s3\<lparr>playbackState := loading\<rparr>)"
  let ?s5 = "?s4\<lparr>session := True, connectionError := False\<rparr>"
  have "\<exists>xs. calls ?s3 = calls st @ xs \<and> Connect \<notin> set xs"
    by (simp add: log_defs)
  then obtain xs where xs: "calls ?s3 = calls st @ xs" "Connect \<notin> set xs"
    by blast
  obtain zs where zs: "calls (setSessionPrompts ev ?s5) = calls ?s5 @ zs" "Connect \<notin> set zs"
    using setSessionPrompts_calls by blast
  have c4: "calls ?s4 = calls st @ xs @ [Connect]"
    using xs by (simp add: log_defs)
  have "\<exists>ys. calls (connectToSession ev st) = calls ?s4 @ ys \<and> Connect \<notin> set ys"
    using assms zs
    by (auto simp add: connectToSession_def connectToSession_catch_def setSessionPrompts_keeps
        log_defs Let_def split: option.splits)
  then show ?thesis
    using c4 xs(2) by auto
qed

lemma wrapText_inj: "wrapText a = wrapText b \<longleftrightarrow> a = b"
  by (simp add: wrapText_def)

lemma promptsToSend_iff:
  "p' \<in> set (promptsToSend st) \<longleftrightarrow>
     (\<exists>p \<in> snd ` set (prompts st). weight p > 1 / 100 \<and> text p \<notin> filteredPrompts st
        \<and> p' = p\<lparr>text := wrapText (text p)\<rparr>)"
  by (auto simp add: promptsToSend_def)

lemma excludes_promptsToSend:
  "t \<in> filteredPrompts st \<Longrightarrow> excludes t (SetWeightedPrompts (promptsToSend st))"
  by (auto simp add: excludes_def promptsToSend_iff wrapText_inj)

lemma excludes_others:
  "excludes t Connect" "excludes t (SetMusicGenerationConfig cfg)" "excludes t Play"
  "excludes t Pause" "excludes t Stop" "excludes t ResetContext" "excludes t Close"
  by (simp_all add: excludes_def)

lemma inv_fields:
  "filtered_inv t n (st\<lparr>prompts := a1\<rparr>) = filtered_inv t n st"
  "filtered_inv t n (st\<lparr>nextPromptId := a2\<rparr>) = filtered_inv t n st"
  "filtered_inv t n (st\<lparr>session := a3\<rparr>) = filtered_inv t n st"
  "filtered_inv t n (st\<lparr>audioContext := a4\<rparr>) = filtered_inv t n st"
  "filtered_inv t n (st\<lparr>nextStartTime := a5\<rparr>) = filtered_inv t n st"
  "filtered_inv t n (st\<lparr>playbackState := a6\<rparr>) = filtered_inv t n st"
  "filtered_inv t n (st\<lparr>connectionError := a7\<rparr>) = filtered_inv t n st"
  "filtered_inv t n (st\<lparr>settingsController := a8\<rparr>) = filtered_inv t n st"
  "filtered_inv t n (st\<lparr>setSessionPrompts_lastCall := a9\<rparr>) = filtered_inv t n st"
  "filtered_inv t n (st\<lparr>updateSettings_lastCall := b1\<rparr>) = filtered_inv t n st"
  "filtered_inv t n (st\<lparr>timeouts := b2\<rparr>) = filtered_inv t n st"
  "filtered_inv t n (st\<lparr>started := b3\<rparr>) = filtered_inv t n st"
  "filtered_inv t n (st\<lparr>storedPrompts := b4\<rparr>) = filtered_inv t n st"
  "filtered_inv t n (toastShow m st) = filtered_inv t n st"
  "filtered_inv t n (consoleLog m st) = filtered_inv t n st"
  "filtered_inv t n (throw e st) = filtered_inv t n st"
  "filtered_inv t n (setTimeout cb ms st) = filtered_inv t n st"
  by (simp_all add: filtered_inv_def log_defs)

lemma inv_call:
  "filtered_inv t n st \<Longrightarrow> excludes t c \<Longrightarrow> filtered_inv t n (call c st)"
  by (auto simp add: filtered_inv_def call_def)

lemma inv_insert:
  "filtered_inv t n st \<Longrightarrow> filtered_inv t n (st\<lparr>filteredPrompts := insert x (filteredPrompts st)\<rparr>)"
  by (simp add: filtered_inv_def)

lemma inv_filtered: "filtered_inv t n st \<Longrightarrow> t \<in> filteredPrompts st"
  by (simp add: filtered_inv_def)

lemmas inv_simps = inv_fields inv_call inv_insert excludes_others

lemma inv_pauseAudio: "filtered_inv t n st \<Longrightarrow> filtered_inv t n (pauseAudio ev st)"
  by (simp add: pauseAudio_def Let_def inv_simps)

lemma inv_initializeAudioContext:
  "filtered_inv t n st \<Longrightarrow> filtered_inv t n (initializeAudioContext ev st)"
  by (simp add: initializeAudioContext_def inv_simps split: option.splits)

lemma inv_setSessionPrompts_func:
  "filtered_inv t n st \<Longrightarrow> filtered_inv t n (setSessionPrompts_func u st)"
  by (simp add: setSessionPrompts_func_def inv_simps inv_filtered excludes_promptsToSend)

lemma inv_setSessionPrompts:
  "filtered_inv t n st \<Longrightarrow> filtered_inv t n (setSessionPrompts ev st)"
  by (simp add: setSessionPrompts_def throttle_def Let_def inv_simps inv_setSessionPrompts_func)

lemma inv_updateSettings:
  "filtered_inv t n st \<Longrightarrow> filtered_inv t n (updateSettings ev cfg st)"
  by (simp add: updateSettings_def updateSettings_func_def throttle_def Let_def inv_simps)

lemma inv_connectToSession_catch:
  "filtered_inv t n st \<Longrightarrow> filtered_inv t n (connectToSession_catch st)"
  by (simp add: connectToSession_catch_def inv_simps)

lemma inv_connectToSession:
  "filtered_inv t n st \<Longrightarrow> filtered_inv t n (connectToSession ev st)"
  by (simp add: connectToSession_def Let_def inv_simps inv_setSessionPrompts
      inv_connectToSession_catch split: option.splits)

lemma inv_onmessage_signals:
  "filtered_inv t n st \<Longrightarrow> filtered_inv t n (onmessage_signals e st)"
  by (simp add: onmessage_signals_def filtered_inv_def log_defs Let_def
      split: option.splits prod.splits)

lemma inv_onmessage_begin:
  "filtered_inv t n st \<Longrightarrow>
     filtered_inv t n (case onmessage_begin ev e st of Finished s \<Rightarrow> s | AwaitDecode s d \<Rightarrow> s)"
  by (simp add: onmessage_begin_def Let_def inv_simps inv_onmessage_signals inv_pauseAudio
      split: option.splits list.splits)

lemma inv_onmessage_resume:
  "filtered_inv t n st \<Longrightarrow> filtered_inv t n (onmessage_resume ev d st)"
  by (simp add: onmessage_resume_def firstBuffer_def rebuffer_def startSource_def Let_def inv_simps)

lemma inv_loadAudio: "filtered_inv t n st \<Longrightarrow> filtered_inv t n (loadAudio ev st)"
  by (simp add: loadAudio_def Let_def inv_simps inv_connectToSession)

lemma inv_handlePlayPause: "filtered_inv t n st \<Longrightarrow> filtered_inv t n (handlePlayPause ev st)"
  by (simp add: handlePlayPause_def Let_def inv_simps inv_connectToSession inv_loadAudio
      inv_pauseAudio inv_initializeAudioContext split: option.splits)

lemma inv_firstUpdated: "filtered_inv t n st \<Longrightarrow> filtered_inv t n (firstUpdated ev ev' st)"
  by (simp add: firstUpdated_def Let_def inv_simps inv_connectToSession inv_setSessionPrompts
      inv_initializeAudioContext split: option.splits)

lemma inv_handlers:
  "filtered_inv t n st \<Longrightarrow> filtered_inv t n (onerror ev st)"
  "filtered_inv t n st \<Longrightarrow> filtered_inv t n (onclose ev w st)"
  "filtered_inv t n st \<Longrightarrow> filtered_inv t n (setSessionPrompts_catch ev st)"
  "filtered_inv t n st \<Longrightarrow> filtered_inv t n (updateSettings_catch ev st)"
  "filtered_inv t n st \<Longrightarrow> filtered_inv t n (handlePromptChanged ev detail st)"
  "filtered_inv t n st \<Longrightarrow> filtered_inv t n (handlePromptRemoved ev i st)"
  "filtered_inv t n st \<Longrightarrow> filtered_inv t n (handleAddPrompt ev st)"
  "filtered_inv t n st \<Longrightarrow> filtered_inv t n (runTimer cb st)"
  by (simp_all add: onerror_def onclose_def setSessionPrompts_catch_def updateSettings_catch_def
      handlePromptChanged_def handlePromptRemoved_def handleAddPrompt_def runTimer_def
      dispatchPromptsChange_def Let_def inv_simps inv_pauseAudio inv_setSessionPrompts
      split: option.splits timer.splits)

lemma inv_step:
  "filtered_inv t n st \<Longrightarrow> e \<noteq> Reset \<Longrightarrow> filtered_inv t n (step ev e st)"
  by (cases e)
    (simp_all add: step_def inv_simps inv_handlers inv_firstUpdated inv_handlePlayPause
      inv_onmessage_begin inv_onmessage_resume inv_updateSettings)

lemma inv_run:
  "filtered_inv t n st \<Longrightarrow> Reset \<notin> snd ` set es \<Longrightarrow> filtered_inv t n (run st es)"
proof (induction es arbitrary: st)
  case Nil
  then show ?case by simp
next
  case (Cons x es)
  obtain ev e where x: "x = (ev, e)" by (cases x)
  with Cons.prems have "filtered_inv t n (step ev e st)"
    by (auto intro: inv_step)
  with Cons.IH Cons.prems x show ?case
    by simp
qed

lemma setSessionPrompts_calls_eq:
  "calls (setSessionPrompts ev st)
     = (if 250 \<le> nowMs ev - setSessionPrompts_lastCall st \<and> session st \<and> \<not> connectionError st
        then calls st @ [SetWeightedPrompts (promptsToSend st)] else calls st)"
  by (simp add: setSessionPrompts_def throttle_def setSessionPrompts_func_def log_defs Let_def)

lemma handleReset_clears:
  assumes "audioContext st = Some running" and "session st" and "\<not> connectionError st"
    and "settingsController st \<noteq> None"
  shows "filteredPrompts (handleReset ev st) = {}"
proof -
  have i: "initializeAudioContext ev st = st"
    using assms(1) by (simp add: initializeAudioContext_def)
  have p: "session (pauseAudio ev st)" "settingsController (pauseAudio ev st) \<noteq> None"
    using assms by (simp_all add: pauseAudio_def log_defs Let_def)
  show ?thesis
    using assms p
    by (auto simp add: handleReset_def i Let_def log_defs updateSettings_def throttle_def
        updateSettings_func_def split: option.splits)
qed

lemmas example_defs = connected_def PromptDj_def initializeAudioContext_def env0_def
  playing0_def audioMessage_def decode0_def prompt0_def digit_def

lemmas example_defs2 = example_defs twoPrompts_def filteredMessage_def scary_def lullaby_def

lemmas message_defs = onmessage_def onmessage_begin_def onmessage_signals_def
  onmessage_resume_def firstBuffer_def rebuffer_def underRun_def startSource_def
  chunkDuration_def bufferTime_def

subsection \<open>The throttle is lossy\<close>

text \<open>
  C6. Two updates \<open>u1\<close> and \<open>u2\<close> are submitted to one throttled channel at the times
  \<open>t1\<close> and \<open>t2\<close>, the interval has elapsed before \<open>u1\<close>, and \<open>u2\<close> comes less than
  the interval after \<open>u1\<close>. Then the throttled function has run once, on \<open>u1\<close>, the
  clock is \<open>t1\<close>, and the closure is in the very state the first update left: nothing
  of \<open>u2\<close> is kept that could be delivered later. For a function that records what it
  is given, exactly \<open>u1\<close> has been recorded. The engine's channels use the interval 250.
\<close>

theorem throttle_second_update_dropped:
  assumes "delay \<le> t1 - lastCall" and "t2 - t1 < delay"
  shows "throttle func delay t2 u2 (throttle func delay t1 u1 (lastCall, s)) = (t1, func u1 s)
       \<and> throttle func delay t2 u2 (throttle func delay t1 u1 (lastCall, s))
           = throttle func delay t1 u1 (lastCall, s)
       \<and> snd (throttle (\<lambda>u sent. sent @ [u]) delay t2 u2
                (throttle (\<lambda>u sent. sent @ [u]) delay t1 u1 (lastCall, sent)))
           = sent @ [u1]"
  using assms by (simp add: throttle_accept throttle_drop)

theorem throttle_second_update_dropped_witness:
  "throttle updateSettings_func 250 1100 [(''bpm'', Num 90)]
     (throttle updateSettings_func 250 1000 [(''bpm'', Num 120)] (0, connected))
   = (1000, call (SetMusicGenerationConfig [(''bpm'', Num 120)]) connected)
   \<and> snd (throttle (\<lambda>u sent. sent @ [u]) 250 1100 (2 :: nat)
            (throttle (\<lambda>u sent. sent @ [u]) 250 1000 1 (0, []))) = [1]"
proof -
  have a: "(250 :: int) \<le> 1000 - 0" and b: "(1100 :: int) - 1000 < 250"
    by simp_all
  have c: "updateSettings_func [(''bpm'', Num 120)] connected
             = call (SetMusicGenerationConfig [(''bpm'', Num 120)]) connected"
    by (simp add: updateSettings_func_def connected_def PromptDj_def
        initializeAudioContext_def env0_def)
  show ?thesis
    using throttle_second_update_dropped [OF a b, of updateSettings_func
        "[(''bpm'', Num 90)]" "[(''bpm'', Num 120)]" connected]
      throttle_second_update_dropped [OF a b, of "\<lambda>u sent. sent @ [u]" "2 :: nat" 1 "[]"]
    by (simp add: c)
qed

subsection \<open>The limit on the number of prompts\<close>

text \<open>
  C10. When the map of prompts holds 8 prompts or more, \<open>handleAddPrompt\<close> changes
  nothing but the notices: the prompts are as before, no call goes to the session, and
  one notice is shown.
\<close>

theorem handleAddPrompt_at_limit:
  assumes "length (prompts st) \<ge> 8"
  shows "handleAddPrompt ev st
           = st\<lparr>toasts := toasts st @ [''That's a lot of song ideas! Maybe remove one first?'']\<rparr>
       \<and> prompts (handleAddPrompt ev st) = prompts st
       \<and> calls (handleAddPrompt ev st) = calls st"
  using assms by (simp add: handleAddPrompt_def toastShow_def)

theorem handleAddPrompt_at_limit_witness:
  "length (prompts (PromptDj env0 (map prompt0 [0..<8]))) \<ge> 8
   \<and> prompts (handleAddPrompt env0 (PromptDj env0 (map prompt0 [0..<8]))) = map prompt0 [0..<8]
   \<and> calls (handleAddPrompt env0 (PromptDj env0 (map prompt0 [0..<8]))) = []
   \<and> toasts (handleAddPrompt env0 (PromptDj env0 (map prompt0 [0..<8])))
       = [''That's a lot of song ideas! Maybe remove one first?'']"
proof -
  have a: "length (prompts (PromptDj env0 (map prompt0 [0..<8]))) \<ge> 8"
    by (simp add: PromptDj_def initializeAudioContext_def env0_def)
  show ?thesis
    using a handleAddPrompt_at_limit [OF a, of env0]
    by (simp add: PromptDj_def initializeAudioContext_def env0_def)
qed

subsection \<open>Scheduling of audio chunks\<close>

text \<open>
  C1. A message with an audio chunk is handled while the state is \<open>loading\<close> or
  \<open>playing\<close>, and when its buffer (of duration \<open>d\<close>) is scheduled the horizon
  \<open>nextStartTime\<close> is not 0 and lies before the device time. Then the state becomes
  \<open>loading\<close>, the horizon is reset to the device time plus \<open>bufferTime\<close>, which is 2,
  the buffer is started at that new horizon, and the horizon then moves on by \<open>d\<close>.
\<close>

theorem under_run_rebuffers:
  assumes "playbackState st = loading \<or> playbackState st = playing"
    and "audioContext st \<noteq> None" and "audioContext st \<noteq> Some closed"
    and "chunkDuration dec e = Some d"
    and "nextStartTime st \<noteq> 0" and "nextStartTime st < currentTime ev"
  shows "playbackState (onmessage dec ev e st) = loading
       \<and> nextStartTime (rebuffer ev (firstBuffer ev (onmessage_signals e st)))
           = currentTime ev + bufferTime
       \<and> started (onmessage dec ev e st) = started st @ [(currentTime ev + bufferTime, d)]
       \<and> nextStartTime (onmessage dec ev e st) = currentTime ev + bufferTime + d
       \<and> bufferTime = 2"
proof -
  let ?s = "onmessage_signals e st"
  have n: "nextStartTime ?s \<noteq> 0" "nextStartTime ?s < currentTime ev"
    using assms by (simp_all add: onmessage_signals_keeps)
  have "onmessage dec ev e st = onmessage_resume ev d ?s"
    using assms by (simp add: onmessage_accepted)
  moreover have "nextStartTime (rebuffer ev (firstBuffer ev ?s)) = currentTime ev + bufferTime"
    using n by (simp add: firstBuffer_def rebuffer_def underRun_def log_defs)
  ultimately show ?thesis
    using n by (simp add: resume_under_run onmessage_signals_keeps log_defs bufferTime_def)
qed

theorem under_run_rebuffers_witness:
  "(playbackState playing0 = loading \<or> playbackState playing0 = playing)
   \<and> nextStartTime playing0 < currentTime (env0\<lparr>currentTime := 20\<rparr>)
   \<and> playbackState (onmessage decode0 (env0\<lparr>currentTime := 20\<rparr>) (audioMessage ''a'') playing0)
       = loading
   \<and> started (onmessage decode0 (env0\<lparr>currentTime := 20\<rparr>) (audioMessage ''a'') playing0)
       = [(22, 1)]
   \<and> nextStartTime (onmessage decode0 (env0\<lparr>currentTime := 20\<rparr>) (audioMessage ''a'') playing0)
       = 23"
proof -
  let ?ev = "env0\<lparr>currentTime := 20\<rparr>"
  have a: "playbackState playing0 = loading \<or> playbackState playing0 = playing"
    and b: "audioContext playing0 \<noteq> None" and c: "audioContext playing0 \<noteq> Some closed"
    and d: "chunkDuration decode0 (audioMessage ''a'') = Some 1"
    and e: "nextStartTime playing0 \<noteq> 0" and f: "nextStartTime playing0 < currentTime ?ev"
    by (simp_all add: example_defs chunkDuration_def)
  show ?thesis
    using a f under_run_rebuffers [OF a b c d e f]
    by (simp add: example_defs bufferTime_def)
qed

text \<open>
  C2. Messages with audio chunks are handled one after the other while the state is
  \<open>playing\<close>, and no under-run is detected (\<open>steady\<close>). Then one buffer is started for
  every message, with the duration its chunk decodes to; each buffer after the first
  starts exactly where the one before it ends, and later than it (\<open>contiguous\<close>); and
  the horizon \<open>nextStartTime\<close> left at the end is the end of the last buffer.
\<close>

theorem steady_stream_contiguous:
  assumes "steady dec st es"
  shows "\<exists>sched. started (onmessages dec st es) = started st @ sched
           \<and> map (\<lambda>x. Some (snd x)) sched = map (\<lambda>x. chunkDuration dec (snd x)) es
           \<and> contiguous sched
           \<and> (es \<noteq> [] \<longrightarrow>
                fst (hd sched)
                  = nextStartTime (firstBuffer (fst (hd es)) (onmessage_signals (snd (hd es)) st))
                \<and> nextStartTime (onmessages dec st es) = fst (last sched) + snd (last sched))"
  using steady_schedule [OF assms] by blast

theorem steady_stream_contiguous_witness:
  "steady decode0 playing0
     [(env0, audioMessage ''a''), (env0\<lparr>currentTime := 11\<rparr>, audioMessage ''b''),
      (env0\<lparr>currentTime := 15\<rparr>, audioMessage ''a'')]
   \<and> started (onmessages decode0 playing0
        [(env0, audioMessage ''a''), (env0\<lparr>currentTime := 11\<rparr>, audioMessage ''b''),
         (env0\<lparr>currentTime := 15\<rparr>, audioMessage ''a'')])
       = [(12, 1), (13, 2), (15, 1)]
   \<and> nextStartTime (onmessages decode0 playing0
        [(env0, audioMessage ''a''), (env0\<lparr>currentTime := 11\<rparr>, audioMessage ''b''),
         (env0\<lparr>currentTime := 15\<rparr>, audioMessage ''a'')]) = 16
   \<and> contiguous [(12, 1), (13, 2), (15, 1)]"
proof -
  let ?es = "[(env0, audioMessage ''a''), (env0\<lparr>currentTime := 11\<rparr>, audioMessage ''b''),
      (env0\<lparr>currentTime := 15\<rparr>, audioMessage ''a'')]"
  have a: "steady decode0 playing0 ?es"
    by (simp add: example_defs message_defs log_defs Let_def)
  have b: "started (onmessages decode0 playing0 ?es) = [(12, 1), (13, 2), (15, 1)]"
    by (simp add: example_defs message_defs log_defs Let_def)
  have c: "nextStartTime (onmessages decode0 playing0 ?es) = 16"
    by (simp add: example_defs message_defs log_defs Let_def)
  from steady_stream_contiguous [OF a] obtain sched where
    "started (onmessages decode0 playing0 ?es) = started playing0 @ sched" "contiguous sched"
    by blast
  with b have "contiguous [(12, 1), (13, 2), (15, 1)]"
    by (simp add: example_defs)
  with a b c show ?thesis by simp
qed

text \<open>
  C3. A message with an audio chunk is handled while the state is \<open>loading\<close> or
  \<open>playing\<close> and the horizon \<open>nextStartTime\<close> is 0. Then its buffer is started at the
  device time plus \<open>bufferTime\<close>, which is 2, and one timeout of \<open>bufferTime * 1000\<close>
  milliseconds is set. When that timeout fires, the state becomes \<open>playing\<close> if it is
  \<open>loading\<close> and is left as it is otherwise; right after a pause or a stop it does nothing.
\<close>

theorem first_buffer_look_ahead:
  assumes "playbackState st = loading \<or> playbackState st = playing"
    and "audioContext st \<noteq> None" and "audioContext st \<noteq> Some closed"
    and "chunkDuration dec e = Some d"
    and "nextStartTime st = 0"
  shows "started (onmessage dec ev e st) = started st @ [(currentTime ev + bufferTime, d)]
       \<and> timeouts (onmessage dec ev e st) = timeouts st @ [(bufferTime * 1000, PromoteToPlaying)]
       \<and> playbackState (onmessage dec ev e st) = playbackState st
       \<and> bufferTime = 2
       \<and> (\<forall>s. runTimer PromoteToPlaying s
                 = (if playbackState s = loading then s\<lparr>playbackState := playing\<rparr> else s))
       \<and> (\<forall>ev' s. runTimer PromoteToPlaying (pauseAudio ev' s) = pauseAudio ev' s)
       \<and> (\<forall>ev' s. runTimer PromoteToPlaying (stopAudio ev' s) = stopAudio ev' s)"
proof -
  let ?s = "onmessage_signals e st"
  have "onmessage dec ev e st = onmessage_resume ev d ?s"
    using assms by (simp add: onmessage_accepted)
  moreover have "nextStartTime ?s = 0"
    using assms by (simp add: onmessage_signals_keeps)
  ultimately have "started (onmessage dec ev e st) = started st @ [(currentTime ev + bufferTime, d)]"
    "timeouts (onmessage dec ev e st) = timeouts st @ [(bufferTime * 1000, PromoteToPlaying)]"
    "playbackState (onmessage dec ev e st) = playbackState st"
    by (simp_all add: resume_first onmessage_signals_keeps)
  moreover have "\<forall>s. runTimer PromoteToPlaying s
                 = (if playbackState s = loading then s\<lparr>playbackState := playing\<rparr> else s)"
    by (simp add: runTimer_def)
  moreover have "\<forall>ev' s. runTimer PromoteToPlaying (pauseAudio ev' s) = pauseAudio ev' s"
    by (simp add: runTimer_def pauseAudio_def Let_def)
  moreover have "\<forall>ev' s. runTimer PromoteToPlaying (stopAudio ev' s) = stopAudio ev' s"
    by (simp add: runTimer_def stopAudio_def Let_def)
  ultimately show ?thesis
    by (simp add: bufferTime_def)
qed

theorem first_buffer_look_ahead_witness:
  "nextStartTime (connected\<lparr>playbackState := loading\<rparr>) = 0
   \<and> started (onmessage decode0 env0 (audioMessage ''a'') (connected\<lparr>playbackState := loading\<rparr>))
       = [(12, 1)]
   \<and> timeouts (onmessage decode0 env0 (audioMessage ''a'') (connected\<lparr>playbackState := loading\<rparr>))
       = [(2000, PromoteToPlaying)]
   \<and> playbackState (runTimer PromoteToPlaying
        (onmessage decode0 env0 (audioMessage ''a'') (connected\<lparr>playbackState := loading\<rparr>)))
       = playing"
proof -
  let ?st = "connected\<lparr>playbackState := loading\<rparr>"
  have a: "playbackState ?st = loading \<or> playbackState ?st = playing"
    and b: "audioContext ?st \<noteq> None" and c: "audioContext ?st \<noteq> Some closed"
    and d: "chunkDuration decode0 (audioMessage ''a'') = Some 1"
    and e: "nextStartTime ?st = 0"
    by (simp_all add: example_defs chunkDuration_def)
  show ?thesis
    using e first_buffer_look_ahead [OF a b c d e, of env0]
    by (simp add: example_defs bufferTime_def)
qed

subsection \<open>Audio chunks that are not wanted\<close>

text \<open>
  C4. When a message is handled while the state is \<open>paused\<close> or \<open>stopped\<close>, the handler
  ends before it decodes anything: whatever the decoder, the message has the effect of
  its \<open>setupComplete\<close> and \<open>filteredPrompt\<close> parts only, so that no buffer is started,
  no timeout is set and \<open>nextStartTime\<close> and the state are as before. The handler gets
  as far as decoding a chunk only when the state is \<open>loading\<close> or \<open>playing\<close> (and then
  exactly when the audio context is usable and the message has a first chunk).
\<close>

theorem chunks_dropped_unless_wanted:
  "((playbackState st = paused \<or> playbackState st = stopped) \<longrightarrow>
      onmessage_begin ev e st = Finished (onmessage_signals e st)
      \<and> (\<forall>dec. onmessage dec ev e st = onmessage_signals e st)
      \<and> nextStartTime (onmessage_signals e st) = nextStartTime st
      \<and> started (onmessage_signals e st) = started st
      \<and> timeouts (onmessage_signals e st) = timeouts st
      \<and> playbackState (onmessage_signals e st) = playbackState st)
   \<and> ((\<exists>s c. onmessage_begin ev e st = AwaitDecode s c) \<longleftrightarrow>
        (playbackState st = loading \<or> playbackState st = playing)
        \<and> audioContext st \<noteq> None \<and> audioContext st \<noteq> Some closed
        \<and> (\<exists>c cs. audioChunks e = Some (c # cs)))"
proof -
  have a: "(playbackState st = paused \<or> playbackState st = stopped) \<longrightarrow>
      onmessage_begin ev e st = Finished (onmessage_signals e st)"
    by (simp add: onmessage_begin_def onmessage_signals_keeps Let_def split: option.splits)
  have b: "(\<exists>s c. onmessage_begin ev e st = AwaitDecode s c) \<longleftrightarrow>
        (playbackState st = loading \<or> playbackState st = playing)
        \<and> audioContext st \<noteq> None \<and> audioContext st \<noteq> Some closed
        \<and> (\<exists>c cs. audioChunks e = Some (c # cs))"
    by (cases "playbackState st")
      (auto simp add: onmessage_begin_def onmessage_signals_keeps Let_def
        split: option.splits list.splits)
  from a have "(playbackState st = paused \<or> playbackState st = stopped) \<longrightarrow>
      (\<forall>dec. onmessage dec ev e st = onmessage_signals e st)"
    by (simp add: onmessage_def)
  with a b show ?thesis
    by (simp add: onmessage_signals_keeps)
qed

theorem chunks_dropped_unless_wanted_witness:
  "(playbackState connected = paused \<or> playbackState connected = stopped)
   \<and> onmessage_begin env0 (audioMessage ''a'') connected = Finished connected
   \<and> onmessage decode0 env0 (audioMessage ''a'') connected = connected
   \<and> onmessage_begin env0 (audioMessage ''a'') playing0 = AwaitDecode playing0 ''a''
   \<and> (playbackState playing0 = loading \<or> playbackState playing0 = playing)"
proof -
  have a: "playbackState connected = paused \<or> playbackState connected = stopped"
    by (simp add: example_defs)
  have s: "onmessage_signals (audioMessage ''a'') connected = connected"
    by (simp add: onmessage_signals_def audioMessage_def)
  have b: "onmessage_begin env0 (audioMessage ''a'') playing0 = AwaitDecode playing0 ''a''"
    by (simp add: example_defs message_defs)
  show ?thesis
    using a b chunks_dropped_unless_wanted [of connected env0 "audioMessage ''a''"]
      chunks_dropped_unless_wanted [of playing0 env0 "audioMessage ''a''"]
    by (simp add: s)
qed

subsection \<open>What is pushed as weighted prompts\<close>

text \<open>
  C5. A call of \<open>setSessionPrompts\<close> that the throttle lets through on a healthy session
  pushes \<open>promptsToSend\<close>, and nothing else pushes weighted prompts. The prompts pushed
  are exactly the prompts whose weight is greater than 0.01 and whose text is not in the
  set of filtered prompts, each with its text between the fixed prefix and suffix. A
  message with a filtered prompt puts its text into the set. Once a text \<open>t\<close> is in the
  set, it stays there through every run of the engine without a reset, whatever the
  events do to the weights, and no push made during such a run has a prompt with the
  text \<open>t\<close> (\<open>excludes\<close>). A reset that runs to its end empties the set.
\<close>

theorem filtered_prompts_excluded:
  "calls (setSessionPrompts ev st)
     = (if 250 \<le> nowMs ev - setSessionPrompts_lastCall st \<and> session st \<and> \<not> connectionError st
        then calls st @ [SetWeightedPrompts (promptsToSend st)] else calls st)
   \<and> (p' \<in> set (promptsToSend st) \<longleftrightarrow>
        (\<exists>p \<in> snd ` set (prompts st). weight p > 1 / 100 \<and> text p \<notin> filteredPrompts st
           \<and> p' = p\<lparr>text := ''Music for a 5-year-old: '' @ text p
                              @ ''. Make it simple, happy, and playful.''\<rparr>))
   \<and> (filteredPrompt e = Some (t, r) \<longrightarrow> t \<in> filteredPrompts (step ev (OnMessage e) st))
   \<and> (t \<in> filteredPrompts st \<and> Reset \<notin> snd ` set es \<longrightarrow>
        t \<in> filteredPrompts (run st es)
        \<and> length (calls st) \<le> length (calls (run st es))
        \<and> (\<forall>c \<in> set (drop (length (calls st)) (calls (run st es))). excludes t c))
   \<and> (audioContext st = Some running \<and> session st \<and> \<not> connectionError st
        \<and> settingsController st \<noteq> None \<longrightarrow> filteredPrompts (handleReset ev st) = {})"
proof -
  have a: "p' \<in> set (promptsToSend st) \<longleftrightarrow>
        (\<exists>p \<in> snd ` set (prompts st). weight p > 1 / 100 \<and> text p \<notin> filteredPrompts st
           \<and> p' = p\<lparr>text := ''Music for a 5-year-old: '' @ text p
                              @ ''. Make it simple, happy, and playful.''\<rparr>)"
    by (simp add: promptsToSend_iff wrapText_def childFriendlyInstruction_def)
  have b: "filteredPrompt e = Some (t, r) \<longrightarrow> t \<in> filteredPrompts (step ev (OnMessage e) st)"
    by (auto simp add: step_def onmessage_begin_def onmessage_signals_def pauseAudio_def
        log_defs Let_def split: option.splits list.splits)
  have c: "t \<in> filteredPrompts st \<and> Reset \<notin> snd ` set es \<longrightarrow>
        t \<in> filteredPrompts (run st es)
        \<and> length (calls st) \<le> length (calls (run st es))
        \<and> (\<forall>c \<in> set (drop (length (calls st)) (calls (run st es))). excludes t c)"
  proof
    assume h: "t \<in> filteredPrompts st \<and> Reset \<notin> snd ` set es"
    then have "filtered_inv t (length (calls st)) st"
      by (simp add: filtered_inv_def)
    with h have "filtered_inv t (length (calls st)) (run st es)"
      by (simp add: inv_run)
    then show "t \<in> filteredPrompts (run st es)
        \<and> length (calls st) \<le> length (calls (run st es))
        \<and> (\<forall>c \<in> set (drop (length (calls st)) (calls (run st es))). excludes t c)"
      by (simp add: filtered_inv_def)
  qed
  show ?thesis
    using a b c setSessionPrompts_calls_eq [of ev st] handleReset_clears [of st ev]
    by blast
qed

theorem filtered_prompts_excluded_witness:
  "filteredPrompts (step env0 (OnMessage (filteredMessage ''Scary Monsters'')) twoPrompts)
     = {''Scary Monsters''}
   \<and> calls (run (step env0 (OnMessage (filteredMessage ''Scary Monsters'')) twoPrompts)
        [(env0, PromptChanged (scary\<lparr>weight := 2\<rparr>))])
       = [SetWeightedPrompts
            [lullaby\<lparr>text := ''Music for a 5-year-old: Sleepy Lullaby. Make it simple, happy, and playful.''\<rparr>]]
   \<and> excludes ''Scary Monsters''
        (SetWeightedPrompts
            [lullaby\<lparr>text := ''Music for a 5-year-old: Sleepy Lullaby. Make it simple, happy, and playful.''\<rparr>])
   \<and> map_of (prompts (run (step env0 (OnMessage (filteredMessage ''Scary Monsters'')) twoPrompts)
        [(env0, PromptChanged (scary\<lparr>weight := 2\<rparr>))])) ''prompt-1''
       = Some (scary\<lparr>weight := 2\<rparr>)"
proof -
  let ?st = "step env0 (OnMessage (filteredMessage ''Scary Monsters'')) twoPrompts"
  let ?es = "[(env0, PromptChanged (scary\<lparr>weight := 2\<rparr>))]"
  let ?push = "SetWeightedPrompts
            [lullaby\<lparr>text := ''Music for a 5-year-old: Sleepy Lullaby. Make it simple, happy, and playful.''\<rparr>]"
  have s: "?st = twoPrompts\<lparr>filteredPrompts := {''Scary Monsters''},
             toasts := [CHR 0x22 # ''Scary Monsters'' @ [CHR ''.'', CHR ''.'', CHR ''.'', CHR 0x22]
                         @ '' idea is a bit tricky! '']\<rparr>"
    by (simp add: step_def onmessage_begin_def onmessage_signals_def example_defs2 log_defs)
  have f: "filteredPrompts ?st = {''Scary Monsters''}"
    by (simp add: s)
  have r: "calls (run ?st ?es) = [?push]"
    unfolding s
    by (simp add: step_def handlePromptChanged_def setSessionPrompts_def throttle_def
        setSessionPrompts_func_def promptsToSend_def wrapText_def childFriendlyInstruction_def
        dispatchPromptsChange_def example_defs2 log_defs Let_def)
  have m: "map_of (prompts (run ?st ?es)) ''prompt-1'' = Some (scary\<lparr>weight := 2\<rparr>)"
    unfolding s
    by (simp add: step_def handlePromptChanged_def setSessionPrompts_def throttle_def
        setSessionPrompts_func_def dispatchPromptsChange_def example_defs2 log_defs Let_def)
  have t: "''Scary Monsters'' \<in> filteredPrompts ?st \<and> Reset \<notin> snd ` set ?es"
    by (simp add: f)
  have c0: "calls ?st = []"
    unfolding s by (simp add: example_defs2)
  from filtered_prompts_excluded [of env0 ?st _ _ "''Scary Monsters''" _ ?es] t
  have "\<forall>c \<in> set (drop (length (calls ?st)) (calls (run ?st ?es))). excludes ''Scary Monsters'' c"
    by blast
  then have "\<forall>c \<in> set [?push]. excludes ''Scary Monsters'' c"
    by (simp only: r c0 list.size drop_0)
  then have "excludes ''Scary Monsters'' ?push"
    by simp
  with f r m show ?thesis
    by simp
qed

subsection \<open>Failed sends on the control channels\<close>

text \<open>
  C7, as the code has it. When the push of weighted prompts throws, the engine shows a
  notice, the state becomes \<open>paused\<close> and \<open>nextStartTime\<close> becomes 0. When the push of a
  generation configuration through \<open>updateSettings\<close> throws, the engine shows a notice
  and changes nothing else: the state and \<open>nextStartTime\<close> are as before.
\<close>

theorem control_send_failure:
  "playbackState (setSessionPrompts_catch ev st) = paused
   \<and> nextStartTime (setSessionPrompts_catch ev st) = 0
   \<and> toasts (setSessionPrompts_catch ev st)
       = toasts st @ [''Oops! Had trouble with song ideas: '' @ errMessage ev]
   \<and> updateSettings_catch ev st
       = st\<lparr>toasts := toasts st @ [''Setting change failed: '' @ errMessage ev]\<rparr>
   \<and> playbackState (updateSettings_catch ev st) = playbackState st
   \<and> nextStartTime (updateSettings_catch ev st) = nextStartTime st"
  by (simp add: setSessionPrompts_catch_def updateSettings_catch_def pauseAudio_def log_defs Let_def)

theorem control_send_failure_witness:
  "playbackState (setSessionPrompts_catch env0 playing0) = paused
   \<and> nextStartTime (setSessionPrompts_catch env0 playing0) = 0
   \<and> toasts (setSessionPrompts_catch env0 playing0) = [''Oops! Had trouble with song ideas: closed'']
   \<and> playbackState (updateSettings_catch env0 playing0) = playing"
  using control_send_failure [of env0 playing0]
  by (simp add: example_defs)

text \<open>
  C7 as stated fails: while the engine plays, a configuration is pushed and the push
  throws; the notice is shown, and the state is still \<open>playing\<close> with the horizon at 12.
\<close>

theorem config_send_failure_counterexample:
  "calls (run playing0 [(env0, SettingsChanged [(''bpm'', Num 90)])])
     = [SetMusicGenerationConfig [(''bpm'', Num 90)]]
   \<and> playbackState (run playing0 [(env0, SettingsChanged [(''bpm'', Num 90)]),
                                   (env0, SetMusicGenerationConfigFailed)]) = playing
   \<and> nextStartTime (run playing0 [(env0, SettingsChanged [(''bpm'', Num 90)]),
                                   (env0, SetMusicGenerationConfigFailed)]) = 12
   \<and> toasts (run playing0 [(env0, SettingsChanged [(''bpm'', Num 90)]),
                            (env0, SetMusicGenerationConfigFailed)])
       = [''Setting change failed: closed'']"
  by (simp add: step_def updateSettings_def updateSettings_func_def updateSettings_catch_def
      throttle_def example_defs log_defs)

subsection \<open>Play while the connection is unhealthy\<close>

text \<open>
  C8, as the code has it. The user asks to play while the state is \<open>stopped\<close> or
  \<open>paused\<close>, the connection is unhealthy (an error is flagged or there is no session) and
  the audio context runs. Then \<open>connectToSession\<close> calls \<open>connect\<close> exactly once. The
  reconnect fails exactly when \<open>connect\<close> throws or the push of the current settings
  throws; the state is then \<open>stopped\<close>, whatever it was before. When the reconnect
  succeeds, \<open>session.play()\<close> is called, and the state becomes \<open>loading\<close> if that call
  returns and \<open>paused\<close> if it throws.
\<close>

theorem play_while_unhealthy:
  assumes "playbackState st = stopped \<or> playbackState st = paused"
    and "connectionError st \<or> \<not> session st"
    and "audioContext st = Some running"
  shows "(\<exists>xs ys. calls (connectToSession ev st) = calls st @ xs @ [Connect] @ ys
            \<and> Connect \<notin> set xs \<and> Connect \<notin> set ys)
       \<and> connectionError (connectToSession ev st)
           = (\<not> connectOk ev \<or> (settingsController st \<noteq> None \<and> \<not> configOk ev))
       \<and> (connectionError (connectToSession ev st) \<longrightarrow>
            handlePlayPause ev st = connectToSession ev st
            \<and> playbackState (handlePlayPause ev st) = stopped)
       \<and> (\<not> connectionError (connectToSession ev st) \<longrightarrow>
            handlePlayPause ev st = loadAudio ev (connectToSession ev st)
            \<and> calls (handlePlayPause ev st) = calls (connectToSession ev st) @ [Play]
            \<and> playbackState (handlePlayPause ev st) = (if playOk ev then loading else paused))"
proof -
  let ?c = "connectToSession ev st"
  have ac: "audioContext st \<noteq> None"
    using assms(3) by simp
  note u = connectToSession_unhealthy [OF assms(2) ac, of ev]
  have i: "initializeAudioContext ev st = st"
    using assms(3) by (simp add: initializeAudioContext_def)
  have h: "handlePlayPause ev st = (if connectionError ?c then ?c else loadAudio ev ?c)"
    using assms by (auto simp add: handlePlayPause_def i Let_def)
  have l: "\<not> connectionError ?c \<longrightarrow>
             calls (loadAudio ev ?c) = calls ?c @ [Play]
             \<and> playbackState (loadAudio ev ?c) = (if playOk ev then loading else paused)"
    using u(3) u(4) assms(3) by (simp add: loadAudio_def log_defs)
  show ?thesis
    using connectToSession_unhealthy_calls [OF assms(2) ac, of ev] u(1) u(2) h l
    by simp
qed

theorem play_while_unhealthy_witness:
  "playbackState ((PromptDj env0 [prompt0 0])\<lparr>playbackState := paused\<rparr>) = paused
   \<and> connectionError ((PromptDj env0 [prompt0 0])\<lparr>playbackState := paused\<rparr>)
   \<and> audioContext ((PromptDj env0 [prompt0 0])\<lparr>playbackState := paused\<rparr>) = Some running
   \<and> \<not> connectionError (connectToSession env0 ((PromptDj env0 [prompt0 0])\<lparr>playbackState := paused\<rparr>))
   \<and> playbackState (handlePlayPause env0 ((PromptDj env0 [prompt0 0])\<lparr>playbackState := paused\<rparr>))
       = loading
   \<and> connectionError (connectToSession (env0\<lparr>connectOk := False\<rparr>)
        ((PromptDj env0 [prompt0 0])\<lparr>playbackState := paused\<rparr>))
   \<and> playbackState (handlePlayPause (env0\<lparr>connectOk := False\<rparr>)
        ((PromptDj env0 [prompt0 0])\<lparr>playbackState := paused\<rparr>)) = stopped"
proof -
  let ?st = "(PromptDj env0 [prompt0 0])\<lparr>playbackState := paused\<rparr>"
  have a: "playbackState ?st = stopped \<or> playbackState ?st = paused"
    and b: "connectionError ?st \<or> \<not> session ?st"
    and c: "audioContext ?st = Some running"
    by (simp_all add: example_defs)
  have d: "playbackState ?st = paused" "connectionError ?st"
    by (simp_all add: example_defs)
  have e: "connectOk env0" "playOk env0" "settingsController ?st = None"
    "\<not> connectOk (env0\<lparr>connectOk := False\<rparr>)"
    by (simp_all add: example_defs)
  show ?thesis
    using c d e play_while_unhealthy [OF a b c, of env0]
      play_while_unhealthy [OF a b c, of "env0\<lparr>connectOk := False\<rparr>"]
    by auto
qed

text \<open>
  C8 as stated fails: the state is \<open>paused\<close>, the connection is flagged as broken and
  \<open>connect\<close> throws; after the play intent the state is \<open>stopped\<close>, not \<open>paused\<close>.
\<close>

theorem play_while_unhealthy_counterexample:
  "playbackState ((PromptDj env0 [prompt0 0])\<lparr>playbackState := paused\<rparr>) = paused
   \<and> connectionError ((PromptDj env0 [prompt0 0])\<lparr>playbackState := paused\<rparr>)
   \<and> calls (handlePlayPause (env0\<lparr>connectOk := False\<rparr>)
        ((PromptDj env0 [prompt0 0])\<lparr>playbackState := paused\<rparr>)) = [Connect]
   \<and> connectionError (handlePlayPause (env0\<lparr>connectOk := False\<rparr>)
        ((PromptDj env0 [prompt0 0])\<lparr>playbackState := paused\<rparr>))
   \<and> playbackState (handlePlayPause (env0\<lparr>connectOk := False\<rparr>)
        ((PromptDj env0 [prompt0 0])\<lparr>playbackState := paused\<rparr>)) = stopped"
  by (simp add: handlePlayPause_def connectToSession_def connectToSession_catch_def
      example_defs log_defs Let_def)

subsection \<open>Connecting twice\<close>

text \<open>
  C9, as the code has it. When a session exists, no connection error is flagged, the
  audio context exists and the probes succeed, every call of \<open>connectToSession\<close> pushes
  one empty configuration and does nothing else. Two calls in a row push two probes;
  nothing is closed, nothing is opened, and the rest of the engine's state is unchanged.
\<close>

theorem connect_twice_probes_twice:
  assumes "session st" and "\<not> connectionError st" and "audioContext st \<noteq> None"
    and "probeOk ev1" and "probeOk ev2"
  shows "connectToSession ev1 st = st\<lparr>calls := calls st @ [SetMusicGenerationConfig []]\<rparr>
       \<and> connectToSession ev2 (connectToSession ev1 st)
           = st\<lparr>calls := calls st @ [SetMusicGenerationConfig [], SetMusicGenerationConfig []]\<rparr>"
  using assms by (simp add: connectToSession_healthy)

theorem connect_twice_probes_twice_witness:
  "session connected \<and> \<not> connectionError connected \<and> audioContext connected \<noteq> None
   \<and> probeOk env0
   \<and> calls (connectToSession env0 (connectToSession env0 connected))
       = [SetMusicGenerationConfig [], SetMusicGenerationConfig []]
   \<and> session (connectToSession env0 (connectToSession env0 connected))
   \<and> playbackState (connectToSession env0 (connectToSession env0 connected)) = stopped"
proof -
  have a: "session connected" and b: "\<not> connectionError connected"
    and c: "audioContext connected \<noteq> None" and d: "probeOk env0"
    by (simp_all add: example_defs)
  have e: "connectToSession env0 (connectToSession env0 connected)
             = connected\<lparr>calls := calls connected
                 @ [SetMusicGenerationConfig [], SetMusicGenerationConfig []]\<rparr>"
    by (rule connect_twice_probes_twice [OF a b c d d, THEN conjunct2])
  show ?thesis
    unfolding e using a b c d by (simp add: example_defs)
qed

text \<open>
  C9 as stated fails: on a healthy session two calls of \<open>connectToSession\<close> push two
  probes in total, not one.
\<close>

theorem connect_twice_counterexample:
  "session connected \<and> \<not> connectionError connected \<and> probeOk env0
   \<and> length (filter (\<lambda>c. c = SetMusicGenerationConfig [])
        (calls (connectToSession env0 (connectToSession env0 connected)))) = 2
   \<and> calls connected = []"
  by (simp add: connectToSession_def call_def Let_def example_defs)

end
